theory Spec2Isabelle
  imports Complex_Main "HOL-Library.Word"
begin

section \<open>JavaScript values\<close>

text \<open>
  A Node \<open>Buffer\<close> is a list of bytes and a JavaScript string a list of UTF-16 code
  units. \<open>js\<close> writes a string literal of the source, which is ASCII throughout.
\<close>

type_synonym buffer = "8 word list"

type_synonym jsstring = "16 word list"

definition js :: "string \<Rightarrow> jsstring" where
  "js s = map of_char s"

definition bytes :: "string \<Rightarrow> buffer" where
  "bytes s = map of_char s"

text \<open>What a \<open>throw\<close> or a rejected promise carries.\<close>

datatype exn = Error jsstring | TypeError jsstring | SyntaxError jsstring

text \<open>
  The values \<open>req.body\<close> and \<open>JSON.parse\<close> range over. An object keeps its
  properties in insertion order. Numbers are the reals (every double is one; \<open>NaN\<close>
  and the infinities, which \<open>JSON.parse\<close> never returns, are left out), and so are
  functions, symbols and cyclic objects.
\<close>

datatype jsval =
    JUndefined
  | JNull
  | JBool bool
  | JNumber real
  | JString jsstring
  | JBuffer buffer
  | JArray "jsval list"
  | JObject "(jsstring \<times> jsval) list"

text \<open>JavaScript's \<open>ToBoolean\<close>, as \<open>if (v)\<close>, \<open>!v\<close> and \<open>v || d\<close> apply it.\<close>

fun truthy :: "jsval \<Rightarrow> bool" where
  "truthy JUndefined = False"
| "truthy JNull = False"
| "truthy (JBool b) = b"
| "truthy (JNumber x) = (x \<noteq> 0)"
| "truthy (JString s) = (s \<noteq> [])"
| "truthy (JBuffer b) = True"
| "truthy (JArray vs) = True"
| "truthy (JObject kvs) = True"

text \<open>
  \<open>!h\<close> for a header value, which is a string or \<open>undefined\<close>: true when the
  header is absent or the empty string.
\<close>

fun falsy_header :: "jsstring option \<Rightarrow> bool" where
  "falsy_header None = True"
| "falsy_header (Some s) = (s = [])"

text \<open>
  The property read \<open>v.type\<close>: a \<open>TypeError\<close> on \<open>undefined\<close> and \<open>null\<close>, the
  property of an object that has it, and \<open>undefined\<close> everywhere else (no string,
  number, boolean, array or Buffer has a property of that name).
\<close>

fun dot_type :: "jsval \<Rightarrow> exn + jsval" where
  "dot_type JUndefined = Inl (TypeError (js ''Cannot read properties of undefined''))"
| "dot_type JNull = Inl (TypeError (js ''Cannot read properties of null''))"
| "dot_type (JObject kvs) =
     Inr (case map_of kvs (js ''type'') of Some v \<Rightarrow> v | None \<Rightarrow> JUndefined)"
| "dot_type v = Inr JUndefined"

section \<open>The exported enums\<close>

datatype InteractionType = PING | COMMAND

fun InteractionType_code :: "InteractionType \<Rightarrow> real" where
  "InteractionType_code PING = 1"
| "InteractionType_code COMMAND = 2"

datatype InteractionResponseType =
  PONG | ACKNOWLEDGE | CHANNEL_MESSAGE | CHANNEL_MESSAGE_WITH_SOURCE | ACKNOWLEDGE_WITH_SOURCE

fun InteractionResponseType_code :: "InteractionResponseType \<Rightarrow> real" where
  "InteractionResponseType_code PONG = 1"
| "InteractionResponseType_code ACKNOWLEDGE = 2"
| "InteractionResponseType_code CHANNEL_MESSAGE = 3"
| "InteractionResponseType_code CHANNEL_MESSAGE_WITH_SOURCE = 4"
| "InteractionResponseType_code ACKNOWLEDGE_WITH_SOURCE = 5"

datatype InteractionResponseFlags = EPHEMERAL

fun InteractionResponseFlags_code :: "InteractionResponseFlags \<Rightarrow> 32 word" where
  "InteractionResponseFlags_code EPHEMERAL = push_bit 6 1"

section \<open>What the code calls and does not define\<close>

text \<open>
  \<open>index.ts\<close> imports \<open>verify\<close> from the package noble-ed25519 and uses Node's
  \<open>Buffer\<close> and \<open>JSON\<close>. None of them is code of the repository, so each is a
  parameter here:
  \<^item> \<open>edVerify signature message publicKey\<close> is the outcome of awaiting
    \<open>edVerify(signature, message, publicKey)\<close>: \<open>Inr b\<close> when the promise resolves
    to \<open>b\<close>, \<open>Inl e\<close> when the call throws or the promise rejects with \<open>e\<close>;
  \<^item> \<open>Buffer_from_utf8 s\<close> is \<open>Buffer.from(s, 'utf-8')\<close>;
  \<^item> \<open>toString_utf8 b\<close> is \<open>b.toString('utf-8')\<close>;
  \<^item> \<open>JSON_parse s\<close> is \<open>JSON.parse(s)\<close>, \<open>Inl\<close> the \<open>SyntaxError\<close> it throws;
  \<^item> \<open>JSON_stringify v\<close> is \<open>JSON.stringify(v)\<close>, a string on every value of
    \<open>jsval\<close> the code passes to it.
\<close>

record runtime =
  edVerify :: "jsstring \<Rightarrow> buffer \<Rightarrow> jsstring \<Rightarrow> exn + bool"
  Buffer_from_utf8 :: "jsstring \<Rightarrow> buffer"
  toString_utf8 :: "buffer \<Rightarrow> jsstring"
  JSON_parse :: "jsstring \<Rightarrow> exn + jsval"
  JSON_stringify :: "jsval \<Rightarrow> jsstring"

section \<open>verifyKey\<close>

text \<open>
  The result is the outcome of the promise \<open>verifyKey\<close> returns. \<open>Buffer.concat\<close> of
  an array of buffers is \<open>concat\<close>. The \<open>try\<close> block holds the whole body, so the
  \<open>catch\<close> clause receives whatever \<open>edVerify\<close> throws or rejects with.
\<close>

definition verifyKey :: "runtime \<Rightarrow> buffer \<Rightarrow> jsstring \<Rightarrow> jsstring \<Rightarrow> jsstring \<Rightarrow> exn + bool" where
  "verifyKey rt rawBody signature timestamp clientPublicKey =
     (case edVerify rt signature (concat [Buffer_from_utf8 rt timestamp, rawBody]) clientPublicKey of
        Inr ok \<Rightarrow> Inr ok
      | Inl e \<Rightarrow> Inr False)"

section \<open>The request, the response and what the middleware does to the world\<close>

text \<open>
  \<open>req.headers\<close> maps a lower-case header name to its value; \<open>req.body\<close> is
  \<open>undefined\<close> unless an earlier middleware has set it. Of the response, the status
  code, the headers set and the body \<open>res.end\<close> was given (\<open>None\<close> while the
  response is still open) are kept. The middleware is taken to run on a response that
  has not been sent, where \<open>res.setHeader\<close> and \<open>res.end\<close> do not fail.
\<close>

record request =
  headers :: "jsstring \<Rightarrow> jsstring option"
  body :: jsval

record response =
  statusCode :: nat
  header_fields :: "jsstring \<Rightarrow> jsstring option"
  ended :: "jsstring option"

text \<open>
  The calls that leave the middleware, in the order they are made, and the rejection of
  a promise nobody handles. \<open>Call_JSON_parse b\<close> is the call of \<open>JSON.parse\<close> on the
  text of the buffer \<open>b\<close>; \<open>Call_req_on n\<close> registers a listener for the event \<open>n\<close>
  of the request's stream.
\<close>

datatype effect =
    Call_verifyKey buffer jsstring jsstring jsstring
  | Call_JSON_parse buffer
  | Call_req_on jsstring
  | Call_console_warn jsstring
  | Call_next
  | Unhandled_rejection exn

record world =
  req :: request
  res :: response
  trace :: "effect list"

definition emit :: "effect \<Rightarrow> world \<Rightarrow> world" where
  "emit e w = w\<lparr>trace := trace w @ [e]\<rparr>"

definition emits :: "effect list \<Rightarrow> world \<Rightarrow> world" where
  "emits es w = w\<lparr>trace := trace w @ es\<rparr>"

definition set_statusCode :: "nat \<Rightarrow> world \<Rightarrow> world" where
  "set_statusCode n w = w\<lparr>res := (res w)\<lparr>statusCode := n\<rparr>\<rparr>"

definition res_setHeader :: "jsstring \<Rightarrow> jsstring \<Rightarrow> world \<Rightarrow> world" where
  "res_setHeader k v w = w\<lparr>res := (res w)\<lparr>header_fields := (header_fields (res w))(k \<mapsto> v)\<rparr>\<rparr>"

definition res_end :: "jsstring \<Rightarrow> world \<Rightarrow> world" where
  "res_end s w = w\<lparr>res := (res w)\<lparr>ended := Some s\<rparr>\<rparr>"

definition set_req_body :: "jsval \<Rightarrow> world \<Rightarrow> world" where
  "set_req_body v w = w\<lparr>req := (req w)\<lparr>body := v\<rparr>\<rparr>"

section \<open>onBodyComplete\<close>

text \<open>
  The closure captures \<open>clientPublicKey\<close>, \<open>signature\<close> and \<open>timestamp\<close>. It is an
  \<open>async\<close> function: the first component of the result is the outcome of its
  promise, \<open>Inl e\<close> when an exception \<open>e\<close> leaves the body.
\<close>

definition onBodyComplete ::
  "runtime \<Rightarrow> jsstring \<Rightarrow> jsstring \<Rightarrow> jsstring \<Rightarrow> buffer \<Rightarrow> world \<Rightarrow> (exn + unit) \<times> world" where
  "onBodyComplete rt clientPublicKey signature timestamp rawBody w =
     (let w1 = emit (Call_verifyKey rawBody signature timestamp clientPublicKey) w in
      case verifyKey rt rawBody signature timestamp clientPublicKey of
        Inl e \<Rightarrow> (Inl e, w1)
      | Inr ok \<Rightarrow>
          if \<not> ok then (Inr (), res_end (js ''Invalid signature'') (set_statusCode 401 w1))
          else
            (let w2 = emit (Call_JSON_parse rawBody) w1 in
             case JSON_parse rt (toString_utf8 rt rawBody) of
               Inl e \<Rightarrow> (Inl e, w2)
             | Inr parsed \<Rightarrow>
                 (let payload = (if truthy parsed then parsed else JObject []) in
                  case dot_type payload of
                    Inl e \<Rightarrow> (Inl e, w2)
                  | Inr t \<Rightarrow>
                      if t = JNumber (InteractionType_code PING) then
                        (Inr (),
                         res_end
                           (JSON_stringify rt
                              (JObject [(js ''type'', JNumber (InteractionResponseType_code PONG))]))
                           (res_setHeader (js ''Content-Type'') (js ''application/json'') w2))
                      else (Inr (), emit Call_next (set_req_body payload w2)))))"

section \<open>The middleware\<close>

text \<open>
  Every call \<open>onBodyComplete(...)\<close> of the middleware drops the promise it gets back:
  a rejection is handled by nobody.
\<close>

fun dropped :: "(exn + unit) \<times> world \<Rightarrow> world" where
  "dropped (Inl e, w) = emit (Unhandled_rejection e) w"
| "dropped (Inr u, w) = w"

text \<open>
  What the request's stream emits after the listeners are registered: \<open>data\<close> events
  and then \<open>end\<close>, after which a stream emits nothing. A list with no \<open>End\<close> is a
  stream that never completes. The \<open>data\<close> listener pushes the chunk; the \<open>end\<close>
  listener concatenates the chunks and passes them on.
\<close>

datatype stream_event = Data buffer | End

fun listeners :: "stream_event list \<Rightarrow> buffer list \<Rightarrow> (buffer \<Rightarrow> world \<Rightarrow> world) \<Rightarrow> world \<Rightarrow> world" where
  "listeners [] chunks on_end w = w"
| "listeners (Data chunk # es) chunks on_end w = listeners es (chunks @ [chunk]) on_end w"
| "listeners (End # es) chunks on_end w = on_end (concat chunks) w"

definition warning :: jsstring where
  "warning = js ''[discord-interactions]: req.body was tampered with, probably by some other middleware. We recommend disabling middleware for interaction routes so that req.body is a raw buffer.''"

text \<open>The function \<open>verifyKeyMiddleware(clientPublicKey)\<close> returns, run on a request whose
  stream will emit \<open>events\<close>.\<close>

definition middleware :: "runtime \<Rightarrow> jsstring \<Rightarrow> stream_event list \<Rightarrow> world \<Rightarrow> world" where
  "middleware rt clientPublicKey events w =
     (let timestamp = headers (req w) (js ''x-signature-timestamp'');
          signature = headers (req w) (js ''x-signature-ed25519'')
      in
        if falsy_header timestamp \<or> falsy_header signature then
          res_end (js ''Invalid headers'') (set_statusCode 401 w)
        else
          (let complete = (\<lambda>rawBody w'.
                 dropped (onBodyComplete rt clientPublicKey (the signature) (the timestamp) rawBody w'))
           in
             if truthy (body (req w)) then
               (case body (req w) of
                  JBuffer b \<Rightarrow> complete b w
                | JString s \<Rightarrow> complete (Buffer_from_utf8 rt s) w
                | v \<Rightarrow>
                    complete (Buffer_from_utf8 rt (JSON_stringify rt v))
                      (emit (Call_console_warn warning) w))
             else
               listeners events [] complete
                 (emit (Call_req_on (js ''end'')) (emit (Call_req_on (js ''data'')) w))))"

definition verifyKeyMiddleware ::
  "runtime \<Rightarrow> jsstring \<Rightarrow> exn + (stream_event list \<Rightarrow> world \<Rightarrow> world)" where
  "verifyKeyMiddleware rt clientPublicKey =
     (if clientPublicKey = [] then Inl (Error (js ''You must specify a Discord client public key''))
      else Inr (middleware rt clientPublicKey))"

section \<open>The body the middleware verifies\<close>

text \<open>
  What the listeners of \<open>listeners\<close> hand to \<open>on_end\<close>: the concatenation of the chunks
  pushed so far when \<open>end\<close> arrives, nothing when it never does.
\<close>

fun stream_result :: "stream_event list \<Rightarrow> buffer list \<Rightarrow> buffer option" where
  "stream_result [] chunks = None"
| "stream_result (Data chunk # es) chunks = stream_result es (chunks @ [chunk])"
| "stream_result (End # es) chunks = Some (concat chunks)"

text \<open>
  The buffer \<open>middleware\<close> passes to \<open>onBodyComplete\<close> and the calls it makes before,
  read off the four branches of the source; \<open>None\<close> when \<open>onBodyComplete\<close> is never
  called. Lemma \<open>middleware_acquired\<close> proves that \<open>middleware\<close> does exactly this.
\<close>

definition acquired_body :: "runtime \<Rightarrow> stream_event list \<Rightarrow> jsval \<Rightarrow> (buffer \<times> effect list) option" where
  "acquired_body rt events b =
     (if truthy b then
        (case b of
           JBuffer x \<Rightarrow> Some (x, [])
         | JString s \<Rightarrow> Some (Buffer_from_utf8 rt s, [])
         | v \<Rightarrow> Some (Buffer_from_utf8 rt (JSON_stringify rt v), [Call_console_warn warning]))
      else
        (case stream_result events [] of
           None \<Rightarrow> None
         | Some rawBody \<Rightarrow> Some (rawBody, [Call_req_on (js ''data''), Call_req_on (js ''end'')])))"

fun is_warn :: "effect \<Rightarrow> bool" where
  "is_warn (Call_console_warn m) = True"
| "is_warn e = False"

section \<open>A sample runtime and sample requests\<close>

text \<open>
  Concrete inputs on which the theorems below are exercised. The sample \<open>edVerify\<close>
  is a toy scheme, not Ed25519: it throws on a signature shorter than two code units,
  as noble-ed25519 does on one it cannot parse, and otherwise accepts exactly the
  signature that spells the message followed by the key. The sample \<open>JSON.parse\<close>
  knows three texts and throws on every other one. The conversions between strings
  and buffers are right on ASCII, which is all the samples hold.
\<close>

definition ping_text :: string where
  "ping_text = ''{'' @ [CHR 0x22] @ ''type'' @ [CHR 0x22] @ '':1}''"

definition command_text :: string where
  "command_text = ''{'' @ [CHR 0x22] @ ''type'' @ [CHR 0x22] @ '':2,'' @ [CHR 0x22] @ ''id'' @ [CHR 0x22] @ '':7}''"

definition demo_rt :: runtime where
  "demo_rt =
     \<lparr>edVerify = (\<lambda>signature message publicKey.
        if length signature < 2 then Inl (Error (js ''Point#multiply''))
        else Inr (signature = map ucast message @ publicKey)),
      Buffer_from_utf8 = map ucast,
      toString_utf8 = map ucast,
      JSON_parse = (\<lambda>s.
        if s = js ping_text then Inr (JObject [(js ''type'', JNumber 1)])
        else if s = js command_text then Inr (JObject [(js ''type'', JNumber 2), (js ''id'', JNumber 7)])
        else if s = js ''0'' then Inr (JNumber 0)
        else Inl (SyntaxError (js ''Unexpected token''))),
      JSON_stringify = (\<lambda>v.
        if v = JObject [(js ''type'', JNumber 1)] then js ping_text else js ''{}'')\<rparr>"

definition demo_world :: "jsstring option \<Rightarrow> jsstring option \<Rightarrow> jsval \<Rightarrow> world" where
  "demo_world timestamp signature b =
     \<lparr>req = \<lparr>headers = (\<lambda>k.
               if k = js ''x-signature-timestamp'' then timestamp
               else if k = js ''x-signature-ed25519'' then signature
               else None),
             body = b\<rparr>,
      res = \<lparr>statusCode = 200, header_fields = (\<lambda>k. None), ended = None\<rparr>,
      trace = []\<rparr>"

section \<open>The verifier\<close>

text \<open>
  C1. For every raw body, signature, timestamp and public key, \<open>verifyKey\<close> answers
  \<open>true\<close> exactly when the Ed25519 check \<open>edVerify\<close> answers \<open>true\<close> for that
  signature and key on the message made of the UTF-8 bytes of the timestamp followed
  directly by the bytes of the raw body. What counts as a valid Ed25519 signature is
  the answer of noble-ed25519's \<open>verify\<close>, a parameter of the model.
\<close>

theorem verifyKey_true_iff:
  "verifyKey rt rawBody sg ts key = Inr True
     \<longleftrightarrow> edVerify rt sg (Buffer_from_utf8 rt ts @ rawBody) key = Inr True"
  by (simp add: verifyKey_def split: sum.splits)

lemmas demo_simps = demo_rt_def demo_world_def js_def bytes_def ping_text_def command_text_def

theorem verifyKey_true_iff_witness:
  "edVerify demo_rt (js ''1{}k'') (Buffer_from_utf8 demo_rt (js ''1'') @ bytes ''{}'') (js ''k'') = Inr True
   \<and> verifyKey demo_rt (bytes ''{}'') (js ''1{}k'') (js ''1'') (js ''k'') = Inr True"
proof -
  have "edVerify demo_rt (js ''1{}k'') (Buffer_from_utf8 demo_rt (js ''1'') @ bytes ''{}'') (js ''k'') = Inr True"
    by (simp add: demo_simps)
  with verifyKey_true_iff [of demo_rt "bytes ''{}''" "js ''1{}k''" "js ''1''" "js ''k''"]
  show ?thesis by simp
qed

text \<open>
  C2. \<open>verifyKey\<close> never raises: on every input its promise resolves to a boolean, and
  whenever the cryptographic check throws or rejects, with whatever error, the result
  is \<open>false\<close>.
\<close>

theorem verifyKey_never_raises:
  "(\<exists>b. verifyKey rt rawBody sg ts key = Inr b)
   \<and> (\<forall>e. edVerify rt sg (Buffer_from_utf8 rt ts @ rawBody) key = Inl e
          \<longrightarrow> verifyKey rt rawBody sg ts key = Inr False)"
  by (cases "edVerify rt sg (Buffer_from_utf8 rt ts @ rawBody) key") (auto simp: verifyKey_def)

theorem verifyKey_never_raises_witness:
  "edVerify demo_rt (js ''z'') (Buffer_from_utf8 demo_rt (js ''1'') @ bytes ''{}'') (js ''k'')
     = Inl (Error (js ''Point#multiply''))
   \<and> verifyKey demo_rt (bytes ''{}'') (js ''z'') (js ''1'') (js ''k'') = Inr False"
proof -
  have "edVerify demo_rt (js ''z'') (Buffer_from_utf8 demo_rt (js ''1'') @ bytes ''{}'') (js ''k'')
     = Inl (Error (js ''Point#multiply''))"
    by (simp add: demo_simps)
  with verifyKey_never_raises [of demo_rt "bytes ''{}''" "js ''z''" "js ''1''" "js ''k''"]
  show ?thesis by simp
qed

section \<open>How the middleware reaches onBodyComplete\<close>

lemma emits_emit: "emit b (emit a w) = emits [a, b] w"
  by (simp add: emit_def emits_def)

lemma listeners_result:
  "listeners es acc k w = (case stream_result es acc of None \<Rightarrow> w | Some raw \<Rightarrow> k raw w)"
  by (induction es acc rule: stream_result.induct) simp_all

lemma stream_result_complete: "stream_result (map Data cs @ [End]) acc = Some (concat (acc @ cs))"
  by (induction cs arbitrary: acc) simp_all

lemma stream_result_open: "stream_result (map Data cs) acc = None"
  by (induction cs arbitrary: acc) simp_all

text \<open>
  With both headers present, the middleware either never calls \<open>onBodyComplete\<close> (the
  stream path on a stream that does not end) or calls it once, on the acquired body,
  and drops its promise.
\<close>

lemma middleware_acquired:
  assumes "headers (req w) (js ''x-signature-timestamp'') = Some ts" and "ts \<noteq> []"
    and "headers (req w) (js ''x-signature-ed25519'') = Some sg" and "sg \<noteq> []"
  shows "middleware rt key events w =
     (case acquired_body rt events (body (req w)) of
        None \<Rightarrow> emits [Call_req_on (js ''data''), Call_req_on (js ''end'')] w
      | Some (rawBody, pre) \<Rightarrow> dropped (onBodyComplete rt key sg ts rawBody (emits pre w)))"
proof (cases "truthy (body (req w))")
  case True
  then show ?thesis using assms
    by (cases "body (req w)") (simp_all add: middleware_def acquired_body_def emits_def emit_def)
next
  case False
  then show ?thesis using assms
    by (simp add: middleware_def acquired_body_def listeners_result emits_emit split: option.splits)
qed

lemma acquired_pre:
  assumes "acquired_body rt events b = Some (rawBody, pre)"
  shows "Call_next \<notin> set pre \<and> (\<forall>x. Call_JSON_parse x \<notin> set pre)
     \<and> (\<forall>e. Unhandled_rejection e \<notin> set pre)
     \<and> (\<forall>x s t k. Call_verifyKey x s t k \<notin> set pre)"
  using assms by (cases b) (auto simp: acquired_body_def split: if_splits option.splits)

lemma demo_ts: "headers (req (demo_world (Some t) (Some s) b)) (js ''x-signature-timestamp'') = Some t"
  by (simp add: demo_world_def)

lemma demo_sg: "headers (req (demo_world (Some t) (Some s) b)) (js ''x-signature-ed25519'') = Some s"
  by (simp add: demo_world_def js_def)

section \<open>Missing headers\<close>

text \<open>
  C3. When the signature header or the timestamp header is absent or empty (one of
  them or both), the middleware sets status 401 and ends the response with
  \<open>Invalid headers\<close>, and that is all it does: the request, \<open>req.body\<close> included, is
  as it was, and no call is made, so no listener is put on the stream, the verifier is
  not invoked and \<open>next\<close> is not called. The outcome depends on neither the body nor
  the stream.
\<close>

theorem missing_headers_401:
  assumes "falsy_header (headers (req w) (js ''x-signature-timestamp''))
         \<or> falsy_header (headers (req w) (js ''x-signature-ed25519''))"
  shows "middleware rt key events w =
       w\<lparr>res := (res w)\<lparr>statusCode := 401, ended := Some (js ''Invalid headers'')\<rparr>\<rparr>
     \<and> trace (middleware rt key events w) = trace w
     \<and> req (middleware rt key events w) = req w"
  using assms by (auto simp: middleware_def res_end_def set_statusCode_def)

theorem missing_headers_401_witness:
  "falsy_header (headers (req (demo_world None (Some (js ''1{}k'')) JUndefined)) (js ''x-signature-timestamp''))
   \<and> middleware demo_rt (js ''k'') [Data (bytes ''{}''), End] (demo_world None (Some (js ''1{}k'')) JUndefined) =
       (demo_world None (Some (js ''1{}k'')) JUndefined)
         \<lparr>res := \<lparr>statusCode = 401, header_fields = (\<lambda>k. None), ended = Some (js ''Invalid headers'')\<rparr>\<rparr>"
proof -
  let ?w = "demo_world None (Some (js ''1{}k'')) JUndefined"
  have h: "falsy_header (headers (req ?w) (js ''x-signature-timestamp''))"
    by (simp add: demo_world_def)
  then have "falsy_header (headers (req ?w) (js ''x-signature-timestamp''))
         \<or> falsy_header (headers (req ?w) (js ''x-signature-ed25519''))" ..
  from missing_headers_401 [OF this, of demo_rt "js ''k''" "[Data (bytes ''{}''), End]"] h
  show ?thesis by (simp add: demo_world_def)
qed

section \<open>The outcomes of onBodyComplete\<close>

lemma dropped_invalid:
  assumes "verifyKey rt rawBody sg ts key = Inr False"
  shows "dropped (onBodyComplete rt key sg ts rawBody w) =
     w\<lparr>res := (res w)\<lparr>statusCode := 401, ended := Some (js ''Invalid signature'')\<rparr>,
       trace := trace w @ [Call_verifyKey rawBody sg ts key]\<rparr>"
  using assms by (simp add: onBodyComplete_def emit_def res_end_def set_statusCode_def)

text \<open>
  C4. When both headers are present and the verifier answers \<open>false\<close> on the acquired
  body, the middleware sets status 401 and ends the response with
  \<open>Invalid signature\<close>; beyond acquiring the body, its only call is the one to
  \<open>verifyKey\<close>: \<open>JSON.parse\<close> is not called, \<open>req.body\<close> is not assigned and \<open>next\<close>
  is not called.
\<close>

theorem invalid_signature_401:
  assumes "headers (req w) (js ''x-signature-timestamp'') = Some ts" and "ts \<noteq> []"
    and "headers (req w) (js ''x-signature-ed25519'') = Some sg" and "sg \<noteq> []"
    and "acquired_body rt events (body (req w)) = Some (rawBody, pre)"
    and "verifyKey rt rawBody sg ts key = Inr False"
  shows "middleware rt key events w =
       w\<lparr>res := (res w)\<lparr>statusCode := 401, ended := Some (js ''Invalid signature'')\<rparr>,
         trace := trace w @ pre @ [Call_verifyKey rawBody sg ts key]\<rparr>
     \<and> Call_next \<notin> set pre \<and> (\<forall>x. Call_JSON_parse x \<notin> set pre)"
  using acquired_pre [OF assms(5)]
  by (simp add: middleware_acquired [OF assms(1-4)] assms(5) dropped_invalid [OF assms(6)] emits_def)

theorem invalid_signature_401_witness:
  "middleware demo_rt (js ''k'') [] (demo_world (Some (js ''1'')) (Some (js ''bad'')) (JBuffer (bytes ''{}''))) =
     (demo_world (Some (js ''1'')) (Some (js ''bad'')) (JBuffer (bytes ''{}'')))
       \<lparr>res := \<lparr>statusCode = 401, header_fields = (\<lambda>k. None), ended = Some (js ''Invalid signature'')\<rparr>,
         trace := [Call_verifyKey (bytes ''{}'') (js ''bad'') (js ''1'') (js ''k'')]\<rparr>"
proof -
  let ?w = "demo_world (Some (js ''1'')) (Some (js ''bad'')) (JBuffer (bytes ''{}''))"
  have a: "acquired_body demo_rt [] (body (req ?w)) = Some (bytes ''{}'', [])"
    by (simp add: acquired_body_def demo_world_def)
  have v: "verifyKey demo_rt (bytes ''{}'') (js ''bad'') (js ''1'') (js ''k'') = Inr False"
    by (simp add: verifyKey_def demo_simps)
  have n: "js ''1'' \<noteq> []" "js ''bad'' \<noteq> []"
    by (simp_all add: js_def)
  from invalid_signature_401 [OF demo_ts n(1) demo_sg n(2) a v] show ?thesis
    by (simp add: demo_world_def)
qed

lemma dot_type_truthy: "dot_type v = Inr (JNumber x) \<Longrightarrow> truthy v"
  by (cases v) simp_all

lemma truthy_dot_type: "truthy v \<Longrightarrow> \<exists>t. dot_type v = Inr t"
  by (cases v) simp_all

lemma dropped_ping:
  assumes "verifyKey rt rawBody sg ts key = Inr True"
    and "JSON_parse rt (toString_utf8 rt rawBody) = Inr payload"
    and "dot_type payload = Inr (JNumber (InteractionType_code PING))"
  shows "dropped (onBodyComplete rt key sg ts rawBody w) =
     w\<lparr>res := (res w)\<lparr>header_fields := (header_fields (res w))(js ''Content-Type'' \<mapsto> js ''application/json''),
                       ended := Some (JSON_stringify rt (JObject [(js ''type'', JNumber (InteractionResponseType_code PONG))]))\<rparr>,
       trace := trace w @ [Call_verifyKey rawBody sg ts key, Call_JSON_parse rawBody]\<rparr>"
  using assms dot_type_truthy [OF assms(3)]
  by (simp add: onBodyComplete_def emit_def res_end_def res_setHeader_def)

lemma dropped_forward:
  assumes "verifyKey rt rawBody sg ts key = Inr True"
    and "JSON_parse rt (toString_utf8 rt rawBody) = Inr payload"
    and "truthy payload"
    and "dot_type payload \<noteq> Inr (JNumber (InteractionType_code PING))"
  shows "dropped (onBodyComplete rt key sg ts rawBody w) =
     w\<lparr>req := (req w)\<lparr>body := payload\<rparr>,
       trace := trace w @ [Call_verifyKey rawBody sg ts key, Call_JSON_parse rawBody, Call_next]\<rparr>"
proof -
  obtain t where t: "dot_type payload = Inr t"
    using truthy_dot_type [OF assms(3)] by blast
  with assms(4) have "t \<noteq> JNumber 1" by simp
  with assms t show ?thesis
    by (simp add: onBodyComplete_def emit_def set_req_body_def)
qed

lemma dropped_falsy:
  assumes "verifyKey rt rawBody sg ts key = Inr True"
    and "JSON_parse rt (toString_utf8 rt rawBody) = Inr payload"
    and "\<not> truthy payload"
  shows "dropped (onBodyComplete rt key sg ts rawBody w) =
     w\<lparr>req := (req w)\<lparr>body := JObject []\<rparr>,
       trace := trace w @ [Call_verifyKey rawBody sg ts key, Call_JSON_parse rawBody, Call_next]\<rparr>"
  using assms by (simp add: onBodyComplete_def emit_def set_req_body_def)

lemma dropped_parse_error:
  assumes "verifyKey rt rawBody sg ts key = Inr True"
    and "JSON_parse rt (toString_utf8 rt rawBody) = Inl e"
  shows "dropped (onBodyComplete rt key sg ts rawBody w) =
     w\<lparr>trace := trace w @ [Call_verifyKey rawBody sg ts key, Call_JSON_parse rawBody, Unhandled_rejection e]\<rparr>"
  using assms by (simp add: onBodyComplete_def emit_def)

lemma warn_dropped:
  "filter is_warn (trace (dropped (onBodyComplete rt key sg ts rawBody w))) = filter is_warn (trace w)"
  by (simp add: onBodyComplete_def emit_def res_end_def set_statusCode_def res_setHeader_def
      set_req_body_def Let_def split: sum.splits)

lemma verify_first:
  "\<exists>rest. trace (dropped (onBodyComplete rt key sg ts rawBody w)) = trace w @ Call_verifyKey rawBody sg ts key # rest"
  by (simp add: onBodyComplete_def emit_def res_end_def set_statusCode_def res_setHeader_def
      set_req_body_def Let_def split: sum.splits)

section \<open>A verified PING\<close>

text \<open>
  C5, as amended. When both headers are present, the verifier answers \<open>true\<close> on the
  acquired body and the body parses to a payload whose \<open>type\<close> is 1 (\<open>PING\<close>), the
  middleware sets \<open>Content-Type: application/json\<close> and ends the response with the
  JSON text of \<open>{type: 1}\<close> (\<open>PONG\<close>). It does not assign the status code: the
  response goes out with the status it had, which is 200 on a response nothing has
  touched. \<open>req.body\<close> is not assigned and \<open>next\<close> is not called.
\<close>

theorem ping_answered_with_pong:
  assumes "headers (req w) (js ''x-signature-timestamp'') = Some ts" and "ts \<noteq> []"
    and "headers (req w) (js ''x-signature-ed25519'') = Some sg" and "sg \<noteq> []"
    and "acquired_body rt events (body (req w)) = Some (rawBody, pre)"
    and "verifyKey rt rawBody sg ts key = Inr True"
    and "JSON_parse rt (toString_utf8 rt rawBody) = Inr payload"
    and "dot_type payload = Inr (JNumber (InteractionType_code PING))"
  shows "middleware rt key events w =
       w\<lparr>res := (res w)\<lparr>header_fields := (header_fields (res w))(js ''Content-Type'' \<mapsto> js ''application/json''),
                         ended := Some (JSON_stringify rt (JObject [(js ''type'', JNumber (InteractionResponseType_code PONG))]))\<rparr>,
         trace := trace w @ pre @ [Call_verifyKey rawBody sg ts key, Call_JSON_parse rawBody]\<rparr>
     \<and> statusCode (res (middleware rt key events w)) = statusCode (res w)
     \<and> (statusCode (res w) = 200 \<longrightarrow> statusCode (res (middleware rt key events w)) = 200)
     \<and> req (middleware rt key events w) = req w
     \<and> Call_next \<notin> set pre"
  using acquired_pre [OF assms(5)]
  by (simp add: middleware_acquired [OF assms(1-4)] assms(5) dropped_ping [OF assms(6-8)] emits_def)

theorem ping_answered_with_pong_witness:
  "middleware demo_rt (js ''k'') [Data (bytes ''{''), Data (bytes (tl ping_text)), End]
       (demo_world (Some (js ''1'')) (Some (js (''1'' @ ping_text @ ''k''))) JUndefined) =
     (demo_world (Some (js ''1'')) (Some (js (''1'' @ ping_text @ ''k''))) JUndefined)
       \<lparr>res := \<lparr>statusCode = 200,
                header_fields = [js ''Content-Type'' \<mapsto> js ''application/json''],
                ended = Some (js ping_text)\<rparr>,
         trace := [Call_req_on (js ''data''), Call_req_on (js ''end''),
                   Call_verifyKey (bytes ping_text) (js (''1'' @ ping_text @ ''k'')) (js ''1'') (js ''k''),
                   Call_JSON_parse (bytes ping_text)]\<rparr>"
proof -
  let ?sg = "js (''1'' @ ping_text @ ''k'')"
  let ?w = "demo_world (Some (js ''1'')) (Some ?sg) JUndefined"
  let ?events = "[Data (bytes ''{''), Data (bytes (tl ping_text)), End]"
  have a: "acquired_body demo_rt ?events (body (req ?w)) =
      Some (bytes ping_text, [Call_req_on (js ''data''), Call_req_on (js ''end'')])"
    by (simp add: acquired_body_def demo_world_def bytes_def ping_text_def)
  have v: "verifyKey demo_rt (bytes ping_text) ?sg (js ''1'') (js ''k'') = Inr True"
    by (simp add: verifyKey_def demo_simps)
  have p: "JSON_parse demo_rt (toString_utf8 demo_rt (bytes ping_text)) = Inr (JObject [(js ''type'', JNumber 1)])"
    by (simp add: demo_simps)
  have t: "dot_type (JObject [(js ''type'', JNumber 1)]) = Inr (JNumber (InteractionType_code PING))"
    by simp
  have n: "js ''1'' \<noteq> []" "?sg \<noteq> []"
    by (simp_all add: js_def)
  have j: "JSON_stringify demo_rt (JObject [(js ''type'', JNumber 1)]) = js ping_text"
    by (simp add: demo_rt_def)
  from ping_answered_with_pong [OF demo_ts n(1) demo_sg n(2) a v p t] show ?thesis
    by (simp add: j demo_world_def)
qed

text \<open>
  C5 as stated fails on a response whose status an earlier stage has set. The body
  carries a valid signature and parses to a \<open>PING\<close>; the response was given the status
  500 before the middleware ran. The \<open>PONG\<close> goes out, and its status is 500, not 200.
\<close>

theorem ping_keeps_preset_status:
  "verifyKey demo_rt (bytes ping_text) (js (''1'' @ ping_text @ ''k'')) (js ''1'') (js ''k'') = Inr True
   \<and> JSON_parse demo_rt (toString_utf8 demo_rt (bytes ping_text)) = Inr (JObject [(js ''type'', JNumber 1)])
   \<and> dot_type (JObject [(js ''type'', JNumber 1)]) = Inr (JNumber (InteractionType_code PING))
   \<and> res (middleware demo_rt (js ''k'') []
         ((demo_world (Some (js ''1'')) (Some (js (''1'' @ ping_text @ ''k''))) (JBuffer (bytes ping_text)))
            \<lparr>res := \<lparr>statusCode = 500, header_fields = (\<lambda>k. None), ended = None\<rparr>\<rparr>)) =
       \<lparr>statusCode = 500,
        header_fields = [js ''Content-Type'' \<mapsto> js ''application/json''],
        ended = Some (js ping_text)\<rparr>
   \<and> statusCode (res (middleware demo_rt (js ''k'') []
         ((demo_world (Some (js ''1'')) (Some (js (''1'' @ ping_text @ ''k''))) (JBuffer (bytes ping_text)))
            \<lparr>res := \<lparr>statusCode = 500, header_fields = (\<lambda>k. None), ended = None\<rparr>\<rparr>))) \<noteq> 200"
  by (simp add: middleware_def onBodyComplete_def verifyKey_def emit_def res_end_def res_setHeader_def
      demo_simps)

section \<open>A verified payload that is not a PING\<close>

text \<open>
  C6, as amended. When both headers are present, the verifier answers \<open>true\<close> on the
  acquired body and the body parses to a truthy payload (any JSON value but \<open>null\<close>,
  \<open>false\<close>, \<open>0\<close> and the empty string) whose \<open>type\<close> is not 1, the middleware
  leaves the response untouched, stores the parsed payload unchanged in \<open>req.body\<close>
  and calls \<open>next\<close> exactly once, as its last call.
\<close>

theorem truthy_payload_forwarded:
  assumes "headers (req w) (js ''x-signature-timestamp'') = Some ts" and "ts \<noteq> []"
    and "headers (req w) (js ''x-signature-ed25519'') = Some sg" and "sg \<noteq> []"
    and "acquired_body rt events (body (req w)) = Some (rawBody, pre)"
    and "verifyKey rt rawBody sg ts key = Inr True"
    and "JSON_parse rt (toString_utf8 rt rawBody) = Inr payload"
    and "truthy payload"
    and "dot_type payload \<noteq> Inr (JNumber (InteractionType_code PING))"
  shows "middleware rt key events w =
       w\<lparr>req := (req w)\<lparr>body := payload\<rparr>,
         trace := trace w @ pre @ [Call_verifyKey rawBody sg ts key, Call_JSON_parse rawBody, Call_next]\<rparr>
     \<and> res (middleware rt key events w) = res w
     \<and> Call_next \<notin> set pre"
  using acquired_pre [OF assms(5)]
  by (simp add: middleware_acquired [OF assms(1-4)] assms(5) dropped_forward [OF assms(6-9)] emits_def)

theorem truthy_payload_forwarded_witness:
  "middleware demo_rt (js ''k'') []
       (demo_world (Some (js ''1'')) (Some (js (''1'' @ command_text @ ''k''))) (JString (js command_text))) =
     (demo_world (Some (js ''1'')) (Some (js (''1'' @ command_text @ ''k'')))
         (JObject [(js ''type'', JNumber 2), (js ''id'', JNumber 7)]))
       \<lparr>trace := [Call_verifyKey (bytes command_text) (js (''1'' @ command_text @ ''k'')) (js ''1'') (js ''k''),
                   Call_JSON_parse (bytes command_text), Call_next]\<rparr>"
proof -
  let ?sg = "js (''1'' @ command_text @ ''k'')"
  let ?w = "demo_world (Some (js ''1'')) (Some ?sg) (JString (js command_text))"
  let ?payload = "JObject [(js ''type'', JNumber 2), (js ''id'', JNumber 7)]"
  have a: "acquired_body demo_rt [] (body (req ?w)) = Some (bytes command_text, [])"
    by (simp add: acquired_body_def demo_simps)
  have v: "verifyKey demo_rt (bytes command_text) ?sg (js ''1'') (js ''k'') = Inr True"
    by (simp add: verifyKey_def demo_simps)
  have p: "JSON_parse demo_rt (toString_utf8 demo_rt (bytes command_text)) = Inr ?payload"
    by (simp add: demo_simps)
  have t: "truthy ?payload" "dot_type ?payload \<noteq> Inr (JNumber (InteractionType_code PING))"
    by simp_all
  have n: "js ''1'' \<noteq> []" "?sg \<noteq> []"
    by (simp_all add: js_def)
  from truthy_payload_forwarded [OF demo_ts n(1) demo_sg n(2) a v p t] show ?thesis
    by (simp add: demo_world_def)
qed

text \<open>
  C6 as stated fails on a falsy payload. The body \<open>0\<close> carries a valid signature and
  parses to the number 0, whose \<open>type\<close> is \<open>undefined\<close> and so not 1; what the
  middleware stores in \<open>req.body\<close> is not that payload (it is the empty object that
  \<open>|| {}\<close> puts in its place, see C10).
\<close>

theorem falsy_payload_not_stored_unchanged:
  "verifyKey demo_rt (bytes ''0'') (js ''10k'') (js ''1'') (js ''k'') = Inr True
   \<and> JSON_parse demo_rt (toString_utf8 demo_rt (bytes ''0'')) = Inr (JNumber 0)
   \<and> dot_type (JNumber 0) \<noteq> Inr (JNumber (InteractionType_code PING))
   \<and> body (req (middleware demo_rt (js ''k'') []
         (demo_world (Some (js ''1'')) (Some (js ''10k'')) (JBuffer (bytes ''0''))))) \<noteq> JNumber 0"
  by (simp add: middleware_def onBodyComplete_def verifyKey_def emit_def set_req_body_def demo_simps)

text \<open>
  C10. When both headers are present, the verifier answers \<open>true\<close> on the acquired
  body and the body parses to \<open>null\<close>, \<open>false\<close>, \<open>0\<close> or the empty string, the
  middleware stores the empty object in \<open>req.body\<close> and calls \<open>next\<close>; the response
  is untouched (no \<open>PONG\<close>) and no exception escapes.
\<close>

theorem falsy_payload_becomes_empty_object:
  assumes "headers (req w) (js ''x-signature-timestamp'') = Some ts" and "ts \<noteq> []"
    and "headers (req w) (js ''x-signature-ed25519'') = Some sg" and "sg \<noteq> []"
    and "acquired_body rt events (body (req w)) = Some (rawBody, pre)"
    and "verifyKey rt rawBody sg ts key = Inr True"
    and "JSON_parse rt (toString_utf8 rt rawBody) = Inr payload"
    and "payload \<in> {JNull, JBool False, JNumber 0, JString []}"
  shows "middleware rt key events w =
       w\<lparr>req := (req w)\<lparr>body := JObject []\<rparr>,
         trace := trace w @ pre @ [Call_verifyKey rawBody sg ts key, Call_JSON_parse rawBody, Call_next]\<rparr>
     \<and> res (middleware rt key events w) = res w
     \<and> (\<forall>e. Unhandled_rejection e \<notin> set pre)"
proof -
  from assms(8) have "\<not> truthy payload" by auto
  from dropped_falsy [OF assms(6,7) this] acquired_pre [OF assms(5)] show ?thesis
    by (simp add: middleware_acquired [OF assms(1-4)] assms(5) emits_def)
qed

theorem falsy_payload_becomes_empty_object_witness:
  "middleware demo_rt (js ''k'') [] (demo_world (Some (js ''1'')) (Some (js ''10k'')) (JBuffer (bytes ''0''))) =
     (demo_world (Some (js ''1'')) (Some (js ''10k'')) (JObject []))
       \<lparr>trace := [Call_verifyKey (bytes ''0'') (js ''10k'') (js ''1'') (js ''k''),
                   Call_JSON_parse (bytes ''0''), Call_next]\<rparr>"
proof -
  let ?w = "demo_world (Some (js ''1'')) (Some (js ''10k'')) (JBuffer (bytes ''0''))"
  have a: "acquired_body demo_rt [] (body (req ?w)) = Some (bytes ''0'', [])"
    by (simp add: acquired_body_def demo_world_def)
  have v: "verifyKey demo_rt (bytes ''0'') (js ''10k'') (js ''1'') (js ''k'') = Inr True"
    by (simp add: verifyKey_def demo_simps)
  have p: "JSON_parse demo_rt (toString_utf8 demo_rt (bytes ''0'')) = Inr (JNumber 0)"
    by (simp add: demo_simps)
  have f: "JNumber 0 \<in> {JNull, JBool False, JNumber 0, JString []}"
    by simp
  have n: "js ''1'' \<noteq> []" "js ''10k'' \<noteq> []"
    by (simp_all add: js_def)
  from falsy_payload_becomes_empty_object [OF demo_ts n(1) demo_sg n(2) a v p f] show ?thesis
    by (simp add: demo_world_def)
qed

section \<open>A verified body that is not JSON\<close>

text \<open>
  When \<open>JSON.parse\<close> throws on a verified body, the exception leaves
  \<open>onBodyComplete\<close>, whose promise the middleware has dropped: the response is not
  written to and \<open>next\<close> is not called.
\<close>

lemma parse_error_unhandled:
  assumes "headers (req w) (js ''x-signature-timestamp'') = Some ts" and "ts \<noteq> []"
    and "headers (req w) (js ''x-signature-ed25519'') = Some sg" and "sg \<noteq> []"
    and "acquired_body rt events (body (req w)) = Some (rawBody, pre)"
    and "verifyKey rt rawBody sg ts key = Inr True"
    and "JSON_parse rt (toString_utf8 rt rawBody) = Inl e"
  shows "middleware rt key events w =
       w\<lparr>trace := trace w @ pre @ [Call_verifyKey rawBody sg ts key, Call_JSON_parse rawBody, Unhandled_rejection e]\<rparr>"
  by (simp add: middleware_acquired [OF assms(1-4)] assms(5) dropped_parse_error [OF assms(6,7)] emits_def)

text \<open>
  C9 asks for a client-error response in that case. The code gives none: on a request
  whose body \<open>{\<close> carries a valid signature, the trace ends with the unhandled
  rejection of the \<open>SyntaxError\<close> and the response is still open, with no status set
  and no body.
\<close>

theorem parse_error_no_response:
  "verifyKey demo_rt (bytes ''{'') (js ''1{k'') (js ''1'') (js ''k'') = Inr True
   \<and> JSON_parse demo_rt (toString_utf8 demo_rt (bytes ''{'')) = Inl (SyntaxError (js ''Unexpected token''))
   \<and> middleware demo_rt (js ''k'') [Data (bytes ''{''), End]
         (demo_world (Some (js ''1'')) (Some (js ''1{k'')) JUndefined) =
       (demo_world (Some (js ''1'')) (Some (js ''1{k'')) JUndefined)
         \<lparr>trace := [Call_req_on (js ''data''), Call_req_on (js ''end''),
                     Call_verifyKey (bytes ''{'') (js ''1{k'') (js ''1'') (js ''k''),
                     Call_JSON_parse (bytes ''{''),
                     Unhandled_rejection (SyntaxError (js ''Unexpected token''))]\<rparr>
   \<and> ended (res (middleware demo_rt (js ''k'') [Data (bytes ''{''), End]
         (demo_world (Some (js ''1'')) (Some (js ''1{k'')) JUndefined))) = None"
proof -
  let ?w = "demo_world (Some (js ''1'')) (Some (js ''1{k'')) JUndefined"
  have a: "acquired_body demo_rt [Data (bytes ''{''), End] (body (req ?w)) =
      Some (bytes ''{'', [Call_req_on (js ''data''), Call_req_on (js ''end'')])"
    by (simp add: acquired_body_def demo_world_def)
  have v: "verifyKey demo_rt (bytes ''{'') (js ''1{k'') (js ''1'') (js ''k'') = Inr True"
    by (simp add: verifyKey_def demo_simps)
  have p: "JSON_parse demo_rt (toString_utf8 demo_rt (bytes ''{'')) = Inl (SyntaxError (js ''Unexpected token''))"
    by (simp add: demo_simps)
  have n: "js ''1'' \<noteq> []" "js ''1{k'' \<noteq> []"
    by (simp_all add: js_def)
  from parse_error_unhandled [OF demo_ts n(1) demo_sg n(2) a v p] v p show ?thesis
    by (simp add: demo_world_def)
qed

section \<open>Where the body comes from\<close>

text \<open>
  The three branches under \<open>if (req.body)\<close>. With both headers present and a truthy
  \<open>req.body\<close>: a Buffer is verified as it is; otherwise a string is verified as its
  UTF-8 encoding; otherwise the value is serialized with \<open>JSON.stringify\<close>, that text
  is encoded as UTF-8 and verified, after one warning on the console. A run of the
  middleware adds a warning to the console on that third branch and on no other path.
\<close>

lemma truthy_body_priority:
  assumes "headers (req w) (js ''x-signature-timestamp'') = Some ts" and "ts \<noteq> []"
    and "headers (req w) (js ''x-signature-ed25519'') = Some sg" and "sg \<noteq> []"
  shows "(\<forall>b. body (req w) = JBuffer b \<longrightarrow>
            middleware rt key events w = dropped (onBodyComplete rt key sg ts b w))
     \<and> (\<forall>s. body (req w) = JString s \<longrightarrow> s \<noteq> [] \<longrightarrow>
            middleware rt key events w = dropped (onBodyComplete rt key sg ts (Buffer_from_utf8 rt s) w))
     \<and> (truthy (body (req w)) \<longrightarrow> (\<forall>b. body (req w) \<noteq> JBuffer b) \<longrightarrow> (\<forall>s. body (req w) \<noteq> JString s) \<longrightarrow>
            middleware rt key events w =
              dropped (onBodyComplete rt key sg ts (Buffer_from_utf8 rt (JSON_stringify rt (body (req w))))
                (emit (Call_console_warn warning) w)))
     \<and> filter is_warn (trace (middleware rt key events w)) =
         filter is_warn (trace w) @
         (if truthy (body (req w)) \<and> (\<forall>b. body (req w) \<noteq> JBuffer b) \<and> (\<forall>s. body (req w) \<noteq> JString s)
          then [Call_console_warn warning] else [])"
proof -
  note m = middleware_acquired [OF assms]
  show ?thesis
    by (cases "body (req w)")
      (auto simp: m acquired_body_def warn_dropped emits_def emit_def split: option.splits)
qed

lemma truthy_body_priority_example:
  "middleware demo_rt (js ''k'') []
      (demo_world (Some (js ''1'')) (Some (js ''bad'')) (JObject [(js ''type'', JNumber 1)])) =
     (demo_world (Some (js ''1'')) (Some (js ''bad'')) (JObject [(js ''type'', JNumber 1)]))
       \<lparr>res := \<lparr>statusCode = 401, header_fields = (\<lambda>k. None), ended = Some (js ''Invalid signature'')\<rparr>,
         trace := [Call_console_warn warning,
                   Call_verifyKey (bytes ping_text) (js ''bad'') (js ''1'') (js ''k'')]\<rparr>
   \<and> filter is_warn (trace (middleware demo_rt (js ''k'') []
      (demo_world (Some (js ''1'')) (Some (js ''bad'')) (JObject [(js ''type'', JNumber 1)])))) =
      [Call_console_warn warning]"
proof -
  let ?w = "demo_world (Some (js ''1'')) (Some (js ''bad'')) (JObject [(js ''type'', JNumber 1)])"
  have n: "js ''1'' \<noteq> []" "js ''bad'' \<noteq> []"
    by (simp_all add: js_def)
  have b: "body (req ?w) = JObject [(js ''type'', JNumber 1)]" "trace ?w = []"
    by (simp_all add: demo_world_def)
  have u: "Buffer_from_utf8 demo_rt (JSON_stringify demo_rt (JObject [(js ''type'', JNumber 1)])) = bytes ping_text"
    by (simp add: demo_simps)
  have v: "verifyKey demo_rt (bytes ping_text) (js ''bad'') (js ''1'') (js ''k'') = Inr False"
    by (simp add: verifyKey_def demo_simps)
  have d: "dropped (onBodyComplete demo_rt (js ''k'') (js ''bad'') (js ''1'') (bytes ping_text)
             (emit (Call_console_warn warning) ?w)) =
     ?w\<lparr>res := \<lparr>statusCode = 401, header_fields = (\<lambda>k. None), ended = Some (js ''Invalid signature'')\<rparr>,
         trace := [Call_console_warn warning,
                   Call_verifyKey (bytes ping_text) (js ''bad'') (js ''1'') (js ''k'')]\<rparr>"
    by (simp add: onBodyComplete_def v emit_def res_end_def set_statusCode_def demo_world_def)
  from truthy_body_priority [OF demo_ts n(1) demo_sg n(2), of "JObject [(js ''type'', JNumber 1)]" demo_rt "js ''k''" "[]"]
  show ?thesis
    by (simp add: b u d)
qed

text \<open>
  C7. The claim gives every materialized body its place in the priority: a Buffer as it
  is, otherwise a string as its UTF-8 encoding. The code decides whether a body is
  there with \<open>if (req.body)\<close>, and the empty string is falsy. On a request whose body
  an earlier stage has materialized as the empty string, the middleware takes the
  stream path instead: it registers the two listeners, and on a stream that has nothing
  left to deliver that is all it ever does (no call of \<open>verifyKey\<close>, the response still
  open); on a stream that still delivers \<open>{}\<close> it verifies those bytes, not the UTF-8
  encoding of the string. The sibling case of an empty Buffer, which is truthy, is
  verified and answered.
\<close>

theorem empty_string_body_not_verified:
  "body (req (demo_world (Some (js ''1'')) (Some (js ''bad'')) (JString []))) = JString []
   \<and> middleware demo_rt (js ''k'') [] (demo_world (Some (js ''1'')) (Some (js ''bad'')) (JString [])) =
      (demo_world (Some (js ''1'')) (Some (js ''bad'')) (JString []))
        \<lparr>trace := [Call_req_on (js ''data''), Call_req_on (js ''end'')]\<rparr>
   \<and> ended (res (middleware demo_rt (js ''k'') []
        (demo_world (Some (js ''1'')) (Some (js ''bad'')) (JString [])))) = None
   \<and> trace (middleware demo_rt (js ''k'') [Data (bytes ''{}''), End]
        (demo_world (Some (js ''1'')) (Some (js ''bad'')) (JString []))) =
      [Call_req_on (js ''data''), Call_req_on (js ''end''),
       Call_verifyKey (bytes ''{}'') (js ''bad'') (js ''1'') (js ''k'')]
   \<and> bytes ''{}'' \<noteq> Buffer_from_utf8 demo_rt []
   \<and> middleware demo_rt (js ''k'') [] (demo_world (Some (js ''1'')) (Some (js ''bad'')) (JBuffer [])) =
      (demo_world (Some (js ''1'')) (Some (js ''bad'')) (JBuffer []))
        \<lparr>res := \<lparr>statusCode = 401, header_fields = (\<lambda>k. None), ended = Some (js ''Invalid signature'')\<rparr>,
          trace := [Call_verifyKey [] (js ''bad'') (js ''1'') (js ''k'')]\<rparr>"
  by (simp add: middleware_def onBodyComplete_def verifyKey_def emit_def res_end_def set_statusCode_def demo_simps)

text \<open>
  C8. With both headers present and a falsy \<open>req.body\<close> (\<open>undefined\<close> when nothing
  has materialized a body), the middleware registers its listeners and, when the stream
  has delivered its chunks and ended, runs \<open>onBodyComplete\<close> on the concatenation of
  the chunks in arrival order: \<open>verifyKey\<close> is called on exactly those bytes. Two
  streams whose chunks concatenate to the same bytes give the same outcome; in
  particular one-byte chunks give what a single chunk gives. Before the stream ends,
  nothing but the registration of the listeners has happened.
\<close>

theorem streamed_body_chunks:
  assumes "headers (req w) (js ''x-signature-timestamp'') = Some ts" and "ts \<noteq> []"
    and "headers (req w) (js ''x-signature-ed25519'') = Some sg" and "sg \<noteq> []"
    and "\<not> truthy (body (req w))"
  shows "middleware rt key (map Data chunks @ [End]) w =
           dropped (onBodyComplete rt key sg ts (concat chunks)
             (emits [Call_req_on (js ''data''), Call_req_on (js ''end'')] w))
     \<and> (\<exists>rest. trace (middleware rt key (map Data chunks @ [End]) w) =
           trace w @ [Call_req_on (js ''data''), Call_req_on (js ''end'')]
             @ Call_verifyKey (concat chunks) sg ts key # rest)
     \<and> (concat chunks = concat chunks' \<longrightarrow>
           middleware rt key (map Data chunks @ [End]) w = middleware rt key (map Data chunks' @ [End]) w)
     \<and> middleware rt key (map Data (map (\<lambda>b. [b]) bs) @ [End]) w = middleware rt key [Data bs, End] w
     \<and> middleware rt key (map Data chunks) w = emits [Call_req_on (js ''data''), Call_req_on (js ''end'')] w"
proof -
  have run: "middleware rt key (map Data cs @ [End]) w =
           dropped (onBodyComplete rt key sg ts (concat cs)
             (emits [Call_req_on (js ''data''), Call_req_on (js ''end'')] w))" for cs
    using assms(5)
    by (simp add: middleware_acquired [OF assms(1-4)] acquired_body_def stream_result_complete)
  have idle: "middleware rt key (map Data chunks) w = emits [Call_req_on (js ''data''), Call_req_on (js ''end'')] w"
    using assms(5)
    by (simp add: middleware_acquired [OF assms(1-4)] acquired_body_def stream_result_open)
  have single: "concat (map (\<lambda>b. [b]) bs) = bs"
    by (induction bs) simp_all
  have one: "middleware rt key [Data bs, End] w = dropped (onBodyComplete rt key sg ts bs
             (emits [Call_req_on (js ''data''), Call_req_on (js ''end'')] w))"
    using run [of "[bs]"] by simp
  have tr: "\<exists>rest. trace (middleware rt key (map Data chunks @ [End]) w) =
           trace w @ [Call_req_on (js ''data''), Call_req_on (js ''end'')]
             @ Call_verifyKey (concat chunks) sg ts key # rest"
    using verify_first [of rt key sg ts "concat chunks" "emits [Call_req_on (js ''data''), Call_req_on (js ''end'')] w"]
    by (simp add: run emits_def)
  have bytewise: "middleware rt key (map Data (map (\<lambda>b. [b]) bs) @ [End]) w = middleware rt key [Data bs, End] w"
    unfolding run one single ..
  have same: "concat chunks = concat chunks' \<longrightarrow>
           middleware rt key (map Data chunks @ [End]) w = middleware rt key (map Data chunks' @ [End]) w"
    unfolding run by simp
  from run [of chunks] tr same bytewise idle show ?thesis
    by (intro conjI)
qed

theorem streamed_body_chunks_witness:
  "middleware demo_rt (js ''k'') [Data (bytes ''{''), Data (bytes ''}''), End]
       (demo_world (Some (js ''1'')) (Some (js ''1{}k'')) JUndefined) =
   middleware demo_rt (js ''k'') [Data (bytes ''{}''), End]
       (demo_world (Some (js ''1'')) (Some (js ''1{}k'')) JUndefined)
   \<and> middleware demo_rt (js ''k'') [Data (bytes ''{''), Data (bytes ''}''), End]
       (demo_world (Some (js ''1'')) (Some (js ''1{}k'')) JUndefined) =
     dropped (onBodyComplete demo_rt (js ''k'') (js ''1{}k'') (js ''1'') (bytes ''{}'')
        (emits [Call_req_on (js ''data''), Call_req_on (js ''end'')]
           (demo_world (Some (js ''1'')) (Some (js ''1{}k'')) JUndefined)))"
proof -
  let ?w = "demo_world (Some (js ''1'')) (Some (js ''1{}k'')) JUndefined"
  have n: "js ''1'' \<noteq> []" "js ''1{}k'' \<noteq> []"
    by (simp_all add: js_def)
  have f: "\<not> truthy (body (req ?w))"
    by (simp add: demo_world_def)
  note c = streamed_body_chunks [OF demo_ts n(1) demo_sg n(2) f,
      of demo_rt "js ''k''" "[bytes ''{'', bytes ''}'']" "[bytes ''{}'']" "bytes ''{}''"]
  from c have "middleware demo_rt (js ''k'') [Data (bytes ''{''), Data (bytes ''}''), End] ?w =
     dropped (onBodyComplete demo_rt (js ''k'') (js ''1{}k'') (js ''1'') (bytes ''{}'')
        (emits [Call_req_on (js ''data''), Call_req_on (js ''end'')] ?w))"
    by (simp add: bytes_def)
  moreover have "concat [bytes ''{'', bytes ''}''] = concat [bytes ''{}'']"
    by (simp add: bytes_def)
  with c have "middleware demo_rt (js ''k'') (map Data [bytes ''{'', bytes ''}''] @ [End]) ?w =
     middleware demo_rt (js ''k'') (map Data [bytes ''{}''] @ [End]) ?w"
    by blast
  then have "middleware demo_rt (js ''k'') [Data (bytes ''{''), Data (bytes ''}''), End] ?w =
     middleware demo_rt (js ''k'') [Data (bytes ''{}''), End] ?w"
    by simp
  ultimately show ?thesis
    by (intro conjI)
qed

end
